theory Spec2Isabelle
  imports Complex_Main
begin

section \<open>RoadCDN multi-region support (multiregion.ts)\<close>

text \<open>
  JavaScript numbers that carry measurements (latencies, weights, the random draw, the
  progress ratio) are modelled as exact rationals; counters and timestamps as integers;
  strings as \<open>string\<close>. A \<open>Map\<close> is an association list in insertion order, which
  is the order in which the source iterates it.
\<close>

subsection \<open>Data model\<close>

record origin =
  origin_id :: string
  url :: string
  weight :: rat
  healthy :: bool
  lastCheck :: int
  latencyMs :: rat
  consecutiveFailures :: int

record region =
  region_id :: string
  region_name :: string
  region_code :: string
  origins :: "origin list"
  priority :: int
  countries :: "string list"
  fallback :: "string option"

datatype reason = Geo | Latency | Failover | Weighted

text \<open>
  The \<open>origin\<close> of a decision is \<open>None\<close> where the source yields \<open>undefined\<close>
  (reading index 0 of an empty array).
\<close>

record routing_decision =
  d_region :: region
  d_origin :: "origin option"
  d_reason :: reason
  d_fallback :: bool

record region_health_status =
  regionId :: string
  s_healthy :: bool
  availableOrigins :: nat
  totalOrigins :: nat
  avgLatencyMs :: rat
  s_lastCheck :: int

type_synonym directory = "(string \<times> region) list"

subsection \<open>Region directory\<close>

text \<open>\<open>Map.set\<close>: replaces the value of an existing key in place, appends a new key.\<close>

fun map_set :: "'k \<Rightarrow> 'v \<Rightarrow> ('k \<times> 'v) list \<Rightarrow> ('k \<times> 'v) list" where
  "map_set k v [] = [(k, v)]"
| "map_set k v ((k', v') # kvs) =
     (if k' = k then (k, v) # kvs else (k', v') # map_set k v kvs)"

definition addRegion :: "region \<Rightarrow> directory \<Rightarrow> directory" where
  "addRegion r rs = map_set (region_id r) r rs"

definition regions_values :: "directory \<Rightarrow> region list" where
  "regions_values rs = map snd rs"

definition regions_get :: "directory \<Rightarrow> string \<Rightarrow> region option" where
  "regions_get rs k = map_of rs k"

text \<open>The value \<open>saveRegions\<close> writes under the key \<open>cdn:regions\<close>.\<close>

definition saveRegions :: "directory \<Rightarrow> region list" where
  "saveRegions rs = regions_values rs"

subsection \<open>Health monitor\<close>

text \<open>
  The outcome of one \<open>fetch\<close> of an origin's health path: a response, with its
  \<open>ok\<close> flag and the elapsed time \<open>Date.now() - start\<close>, or a rejection (network
  error, or the 5 second timeout).
\<close>

datatype probe = Response bool rat | Rejected

text \<open>
  The body of the loop over a region's origins, as far as it changes the origin:
  the \<open>try\<close> block, the \<open>catch\<close> block, then the \<open>lastCheck\<close> stamp.
\<close>

fun record_probe :: "probe \<Rightarrow> int \<Rightarrow> origin \<Rightarrow> origin" where
  "record_probe (Response ok latency) now og =
     (let og1 = og\<lparr>latencyMs := latency\<rparr>;
          og2 = (if ok then og1\<lparr>healthy := True, consecutiveFailures := 0\<rparr>
                 else (let og' = og1\<lparr>consecutiveFailures := consecutiveFailures og1 + 1\<rparr>
                       in og'\<lparr>healthy := (consecutiveFailures og' < 3)\<rparr>))
      in og2\<lparr>lastCheck := now\<rparr>)"
| "record_probe Rejected now og =
     (og\<lparr>consecutiveFailures := consecutiveFailures og + 1,
         healthy := False,
         latencyMs := 9999,
         lastCheck := now\<rparr>)"

text \<open>
  The network and the clock during one sweep: the outcome of the probe of origin \<open>j\<close>
  of region \<open>i\<close> (positions in iteration order), the time stamped after it, and the
  time at which the summary of region \<open>i\<close> is built.
\<close>

record sweep_env =
  probe_of :: "nat \<Rightarrow> nat \<Rightarrow> probe"
  checked_at :: "nat \<Rightarrow> nat \<Rightarrow> int"
  summary_at :: "nat \<Rightarrow> int"

text \<open>
  The inner loop, with its two accumulators \<open>healthyCount\<close> and \<open>totalLatency\<close>:
  \<open>totalLatency\<close> grows at every response, before \<open>response.ok\<close> is looked at;
  \<open>healthyCount\<close> grows at an \<open>ok\<close> response only.
\<close>

fun check_origins ::
  "(nat \<Rightarrow> probe) \<Rightarrow> (nat \<Rightarrow> int) \<Rightarrow> nat \<Rightarrow> origin list \<Rightarrow> nat \<Rightarrow> rat
     \<Rightarrow> origin list \<times> nat \<times> rat" where
  "check_origins pr tm j [] healthyCount totalLatency = ([], healthyCount, totalLatency)"
| "check_origins pr tm j (og # ogs) healthyCount totalLatency =
     (let og' = record_probe (pr j) (tm j) og;
          totalLatency' = (case pr j of Response ok latency \<Rightarrow> totalLatency + latency
                           | Rejected \<Rightarrow> totalLatency);
          healthyCount' = (case pr j of Response ok latency \<Rightarrow>
                             (if ok then healthyCount + 1 else healthyCount)
                           | Rejected \<Rightarrow> healthyCount);
          (ogs', hc, lat) = check_origins pr tm (j + 1) ogs healthyCount' totalLatency'
      in (og' # ogs', hc, lat))"

definition check_region ::
  "sweep_env \<Rightarrow> nat \<Rightarrow> string \<Rightarrow> region \<Rightarrow> region \<times> region_health_status" where
  "check_region env i rid r =
     (let (ogs', healthyCount, totalLatency) =
            check_origins (probe_of env i) (checked_at env i) 0 (origins r) 0 0
      in (r\<lparr>origins := ogs'\<rparr>,
          \<lparr>regionId = rid,
           s_healthy = (healthyCount > 0),
           availableOrigins = healthyCount,
           totalOrigins = length (origins r),
           avgLatencyMs = (if healthyCount > 0 then totalLatency / of_nat healthyCount else 0),
           s_lastCheck = summary_at env i\<rparr>))"

fun check_regions ::
  "sweep_env \<Rightarrow> nat \<Rightarrow> directory \<Rightarrow> (string \<times> region_health_status) list
     \<Rightarrow> directory \<times> (string \<times> region_health_status) list" where
  "check_regions env i [] results = ([], results)"
| "check_regions env i ((rid, r) # rs) results =
     (let (r', st) = check_region env i rid r;
          (rs', results') = check_regions env (i + 1) rs (map_set rid st results)
      in ((rid, r') # rs', results'))"

text \<open>
  \<open>performHealthChecks\<close>: the updated directory, the value saved under
  \<open>cdn:regions\<close>, and the map of summaries.
\<close>

definition performHealthChecks ::
  "sweep_env \<Rightarrow> directory
     \<Rightarrow> directory \<times> region list \<times> (string \<times> region_health_status) list" where
  "performHealthChecks env rs =
     (let (rs', results) = check_regions env 0 rs [] in (rs', saveRegions rs', results))"

subsection \<open>Routing engine\<close>

datatype route_error = NoHealthyRegion

text \<open>The first region, in iteration order, whose country list includes the country.\<close>

definition findRegionByCountry :: "directory \<Rightarrow> string \<Rightarrow> region option" where
  "findRegionByCountry rs country =
     find (\<lambda>r. country \<in> set (countries r)) (regions_values rs)"

definition isRegionHealthy :: "region \<Rightarrow> bool" where
  "isRegionHealthy r = list_ex healthy (origins r)"

text \<open>A latency average is a number or \<open>Infinity\<close>; \<open>num_less\<close> is JavaScript's \<open><\<close> on them.\<close>

datatype jsnum = Finite rat | Infinity

fun num_less :: "jsnum \<Rightarrow> jsnum \<Rightarrow> bool" where
  "num_less (Finite a) (Finite b) = (a < b)"
| "num_less (Finite a) Infinity = True"
| "num_less Infinity b = False"

definition getAverageLatency :: "region \<Rightarrow> jsnum" where
  "getAverageLatency r =
     (let healthyOrigins = filter healthy (origins r)
      in if length healthyOrigins = 0 then Infinity
         else (let sum = foldl (\<lambda>s og. s + latencyMs og) 0 healthyOrigins
               in Finite (sum / of_nat (length healthyOrigins))))"

text \<open>
  \<open>Array.reduce\<close> without an initial value: the first element starts as \<open>best\<close>, and a
  later region replaces it only when its average is strictly lower.
\<close>

definition lower_latency :: "region \<Rightarrow> region \<Rightarrow> region" where
  "lower_latency best current =
     (let bestAvg = getAverageLatency best;
          currentAvg = getAverageLatency current
      in if num_less currentAvg bestAvg then current else best)"

definition findLowestLatencyRegion :: "directory \<Rightarrow> region option" where
  "findLowestLatencyRegion rs =
     (case filter isRegionHealthy (regions_values rs) of
        [] \<Rightarrow> None
      | first # rest \<Rightarrow> Some (foldl lower_latency first rest))"

text \<open>
  The sampling loop of \<open>selectOrigin\<close>: \<open>None\<close> when the loop ends without returning.
\<close>

fun weighted_loop :: "origin list \<Rightarrow> rat \<Rightarrow> origin option" where
  "weighted_loop [] random = None"
| "weighted_loop (og # ogs) random =
     (let random' = random - weight og
      in if random' \<le> 0 then Some og else weighted_loop ogs random')"

definition totalWeight :: "region \<Rightarrow> rat" where
  "totalWeight r = foldl (\<lambda>sum og. sum + weight og) 0 (filter healthy (origins r))"

text \<open>
  \<open>selectOrigin\<close>, with the value \<open>u\<close> that \<open>Math.random()\<close> returns as a parameter
  (\<open>0 \<le> u < 1\<close>).
\<close>

definition selectOrigin :: "region \<Rightarrow> rat \<Rightarrow> origin option" where
  "selectOrigin r u =
     (let healthyOrigins = filter healthy (origins r)
      in if length healthyOrigins = 0
         then (case origins r of [] \<Rightarrow> None | og # ogs \<Rightarrow> Some og)
         else if length healthyOrigins = 1 then Some (healthyOrigins ! 0)
         else (let random = u * totalWeight r
               in case weighted_loop healthyOrigins random of
                    Some og \<Rightarrow> Some og
                  | None \<Rightarrow> Some (healthyOrigins ! 0)))"

text \<open>
  \<open>cf?.country || 'US'\<close>: the argument is the value of \<open>cf?.country\<close>, \<open>None\<close>
  when it is undefined; the empty string is falsy as well.
\<close>

definition request_country :: "string option \<Rightarrow> string" where
  "request_country cf =
     (case cf of None \<Rightarrow> ''US'' | Some c \<Rightarrow> if c = [] then ''US'' else c)"

text \<open>
  The first half of \<open>route\<close>: the target region and the \<open>fallback\<close> flag before the
  lowest-latency step. \<open>if (targetRegion.fallback)\<close> tests truthiness: an absent
  field and the empty string both skip the branch.
\<close>

definition route_target :: "directory \<Rightarrow> string \<Rightarrow> region option \<times> bool" where
  "route_target rs country =
     (case findRegionByCountry rs country of
        None \<Rightarrow> (None, False)
      | Some r \<Rightarrow>
          if \<not> isRegionHealthy r then
            (case fallback r of
               None \<Rightarrow> (Some r, False)
             | Some f \<Rightarrow> if f \<noteq> [] then (regions_get rs f, True) else (Some r, False))
          else (Some r, False))"

definition route :: "directory \<Rightarrow> rat \<Rightarrow> string option \<Rightarrow> route_error + routing_decision" where
  "route rs u cf =
     (let country = request_country cf;
          (targetRegion, fb) = route_target rs country;
          targetRegion' = (case targetRegion of
                             None \<Rightarrow> findLowestLatencyRegion rs
                           | Some r \<Rightarrow> Some r)
      in case targetRegion' of
           None \<Rightarrow> Inl NoHealthyRegion
         | Some r \<Rightarrow>
             Inr \<lparr>d_region = r,
                  d_origin = selectOrigin r u,
                  d_reason = (if fb then Failover else Geo),
                  d_fallback = fb\<rparr>)"

subsection \<open>Region presets\<close>

definition REGION_PRESETS :: "region list" where
  "REGION_PRESETS =
     [\<lparr>region_id = ''us-east'', region_name = ''US East'', region_code = ''us-east-1'',
       origins = [], priority = 1,
       countries = [''US'', ''CA'', ''MX'', ''CO'', ''VE'', ''BR''],
       fallback = Some ''eu-west''\<rparr>,
      \<lparr>region_id = ''us-west'', region_name = ''US West'', region_code = ''us-west-1'',
       origins = [], priority = 2,
       countries = [''US''],
       fallback = Some ''us-east''\<rparr>,
      \<lparr>region_id = ''eu-west'', region_name = ''EU West'', region_code = ''eu-west-1'',
       origins = [], priority = 1,
       countries = [''GB'', ''IE'', ''FR'', ''DE'', ''NL'', ''BE'', ''ES'', ''PT'', ''IT''],
       fallback = Some ''us-east''\<rparr>,
      \<lparr>region_id = ''eu-central'', region_name = ''EU Central'', region_code = ''eu-central-1'',
       origins = [], priority = 2,
       countries = [''DE'', ''AT'', ''CH'', ''PL'', ''CZ'', ''HU'', ''RO'', ''BG''],
       fallback = Some ''eu-west''\<rparr>,
      \<lparr>region_id = ''ap-southeast'', region_name = ''Asia Pacific Southeast'',
       region_code = ''ap-southeast-1'',
       origins = [], priority = 1,
       countries = [''SG'', ''MY'', ''ID'', ''TH'', ''VN'', ''PH'', ''AU'', ''NZ''],
       fallback = Some ''ap-northeast''\<rparr>,
      \<lparr>region_id = ''ap-northeast'', region_name = ''Asia Pacific Northeast'',
       region_code = ''ap-northeast-1'',
       origins = [], priority = 1,
       countries = [''JP'', ''KR'', ''TW'', ''HK''],
       fallback = Some ''ap-southeast''\<rparr>]"

definition createDefaultRouter :: directory where
  "createDefaultRouter = foldl (\<lambda>router preset. addRegion preset router) [] REGION_PRESETS"

subsection \<open>Cross-region replicator\<close>

datatype job_status = Pending | Running | Completed | Failed

record replication_job =
  job_id :: string
  sourceRegion :: string
  targetRegions :: "string list"
  paths :: "string list"
  status :: job_status
  progress :: int
  startedAt :: int
  completedAt :: "int option"
  errors :: "string list"

text \<open>
  An object of the store: its content, its HTTP metadata, and the provenance that a
  replication write attaches (\<open>replicatedAt\<close> is the clock reading whose decimal string
  the source stores).
\<close>

record provenance =
  replicatedFrom :: string
  replicatedAt :: int
  replicationJobId :: string

record r2_object =
  content :: string
  httpMetadata :: "string option"
  customMetadata :: "provenance option"

text \<open>
  The object store: the objects it holds, and the keys at which a \<open>put\<close> throws, with
  the message of the exception. A \<open>get\<close> returns the object or \<open>null\<close> and does not
  throw, as in the store's contract.
\<close>

record r2_bucket =
  objects :: "string \<Rightarrow> r2_object option"
  put_error :: "string \<Rightarrow> string option"

definition bucket_get :: "r2_bucket \<Rightarrow> string \<Rightarrow> r2_object option" where
  "bucket_get b key = objects b key"

definition bucket_put :: "r2_bucket \<Rightarrow> string \<Rightarrow> r2_object \<Rightarrow> string + r2_bucket" where
  "bucket_put b key obj =
     (case put_error b key of
        Some message \<Rightarrow> Inl message
      | None \<Rightarrow> Inr (b\<lparr>objects := (objects b)(key \<mapsto> obj)\<rparr>))"

text \<open>
  The key-value store as the replicator uses it: a serialised job and its
  \<open>expirationTtl\<close> under each key.
\<close>

type_synonym job_store = "string \<Rightarrow> (replication_job \<times> nat) option"

record replicator =
  kv :: job_store
  bucket :: r2_bucket
  jobs :: "(string \<times> replication_job) list"

text \<open>\<open>Math.round\<close>: the nearest integer, a half rounding up.\<close>

definition js_round :: "rat \<Rightarrow> int" where
  "js_round x = \<lfloor>x + 1 / 2\<rfloor>"

definition source_key :: "replication_job \<Rightarrow> string \<Rightarrow> string" where
  "source_key job path = sourceRegion job @ ''/'' @ path"

definition target_key :: "string \<Rightarrow> string \<Rightarrow> string" where
  "target_key targetRegion path = targetRegion @ ''/'' @ path"

text \<open>
  The loop over the target regions of one path. The clock is read once for every write,
  so the write number \<open>completed\<close> indexes the reading.
\<close>

fun replicate_targets ::
  "(nat \<Rightarrow> int) \<Rightarrow> nat \<Rightarrow> string \<Rightarrow> r2_object \<Rightarrow> string list
     \<Rightarrow> r2_bucket \<times> replication_job \<times> nat \<Rightarrow> r2_bucket \<times> replication_job \<times> nat" where
  "replicate_targets clock totalPaths path sourceObject [] (b, job, completed) =
     (b, job, completed)"
| "replicate_targets clock totalPaths path sourceObject (targetRegion # rest)
       (b, job, completed) =
     (let obj = \<lparr>content = content sourceObject,
                 httpMetadata = httpMetadata sourceObject,
                 customMetadata = Some \<lparr>replicatedFrom = sourceRegion job,
                                         replicatedAt = clock completed,
                                         replicationJobId = job_id job\<rparr>\<rparr>;
          (b', job') =
            (case bucket_put b (target_key targetRegion path) obj of
               Inr b' \<Rightarrow> (b', job)
             | Inl message \<Rightarrow>
                 (b, job\<lparr>errors := errors job @
                      [''Failed to replicate '' @ path @ '' to '' @ targetRegion
                         @ '': '' @ message]\<rparr>));
          completed' = completed + 1;
          job'' = job'\<lparr>progress :=
                    js_round ((of_nat completed' / of_nat totalPaths) * 100)\<rparr>
      in replicate_targets clock totalPaths path sourceObject rest (b', job'', completed'))"

fun replicate_paths ::
  "(nat \<Rightarrow> int) \<Rightarrow> nat \<Rightarrow> string list
     \<Rightarrow> r2_bucket \<times> replication_job \<times> nat \<Rightarrow> r2_bucket \<times> replication_job \<times> nat" where
  "replicate_paths clock totalPaths [] (b, job, completed) = (b, job, completed)"
| "replicate_paths clock totalPaths (path # rest) (b, job, completed) =
     (case bucket_get b (source_key job path) of
        None \<Rightarrow>
          replicate_paths clock totalPaths rest
            (b, job\<lparr>errors := errors job @ [''Source not found: '' @ path]\<rparr>, completed)
      | Some sourceObject \<Rightarrow>
          replicate_paths clock totalPaths rest
            (replicate_targets clock totalPaths path sourceObject (targetRegions job)
               (b, job, completed)))"

text \<open>
  \<open>runReplication\<close>, run to its end. The job table holds the job object itself, so
  the entry of a registered job shows the final record.
\<close>

definition runReplication ::
  "(nat \<Rightarrow> int) \<Rightarrow> replicator \<Rightarrow> replication_job \<Rightarrow> replicator \<times> replication_job" where
  "runReplication clock st job0 =
     (let job = job0\<lparr>status := Running\<rparr>;
          totalPaths = length (paths job) * length (targetRegions job);
          (b, job1, completed) =
             replicate_paths clock totalPaths (paths job) (bucket st, job, 0);
          job2 = job1\<lparr>status := (if length (errors job1) > 0 then Failed else Completed)\<rparr>;
          job3 = job2\<lparr>completedAt := Some (clock completed)\<rparr>;
          kv' = (kv st)(''replication:'' @ job_id job3 \<mapsto> (job3, 86400 * 7))
      in (st\<lparr>kv := kv', bucket := b,
             jobs := map (\<lambda>(k, j). if k = job_id job0 then (k, job3) else (k, j)) (jobs st)\<rparr>,
          job3))"

text \<open>
  \<open>startReplication\<close> with the generated id and the start time as parameters: the
  pending record it registers and returns, and the state once the detached run is over.
\<close>

definition new_job ::
  "string \<Rightarrow> string \<Rightarrow> string list \<Rightarrow> string list \<Rightarrow> int \<Rightarrow> replication_job" where
  "new_job uuid src targets ps now =
     \<lparr>job_id = uuid, sourceRegion = src, targetRegions = targets, paths = ps,
      status = Pending, progress = 0, startedAt = now, completedAt = None, errors = []\<rparr>"

definition startReplication ::
  "(nat \<Rightarrow> int) \<Rightarrow> string \<Rightarrow> int \<Rightarrow> replicator \<Rightarrow> string \<Rightarrow> string list \<Rightarrow> string list
     \<Rightarrow> replication_job \<times> replicator \<times> replication_job" where
  "startReplication clock uuid now st src targets ps =
     (let job = new_job uuid src targets ps now;
          st1 = st\<lparr>jobs := map_set (job_id job) job (jobs st)\<rparr>;
          (st2, final) = runReplication clock st1 job
      in (job, st2, final))"

subsection \<open>Geo cache manager\<close>

definition getCacheKey :: "string \<Rightarrow> string \<Rightarrow> string" where
  "getCacheKey path region = ''cache:'' @ region @ '':'' @ path"

subsection \<open>Auxiliary notions used in the statements\<close>


text \<open>The error messages of the failing writes of one path, in the order of the targets.\<close>

definition write_errors ::
  "(string \<Rightarrow> string option) \<Rightarrow> string \<Rightarrow> string list \<Rightarrow> string list" where
  "write_errors pe path ts =
     concat (map (\<lambda>t. case pe (target_key t path) of
                          None \<Rightarrow> []
                        | Some message \<Rightarrow>
                            [''Failed to replicate '' @ path @ '' to '' @ t @ '': '' @ message])
                 ts)"

definition path_errors :: "r2_bucket \<Rightarrow> replication_job \<Rightarrow> string \<Rightarrow> string list" where
  "path_errors b job path =
     (case objects b (source_key job path) of
        None \<Rightarrow> [''Source not found: '' @ path]
      | Some sourceObject \<Rightarrow> write_errors (put_error b) path (targetRegions job))"

text \<open>The paths whose source object the bucket holds.\<close>

definition found_paths :: "r2_bucket \<Rightarrow> replication_job \<Rightarrow> string list \<Rightarrow> string list" where
  "found_paths b job ps = filter (\<lambda>p. objects b (source_key job p) \<noteq> None) ps"

text \<open>
  No write of the job creates the source object of a path that is missing: the target
  keys of the paths that are found differ from the source keys of the paths that are not.
\<close>

definition no_alias :: "r2_bucket \<Rightarrow> replication_job \<Rightarrow> string list \<Rightarrow> bool" where
  "no_alias b job ps \<longleftrightarrow>
     (\<forall>q\<in>set ps. objects b (source_key job q) = None \<longrightarrow>
        (\<forall>p\<in>set ps. objects b (source_key job p) \<noteq> None \<longrightarrow>
           (\<forall>t\<in>set (targetRegions job). target_key t p \<noteq> source_key job q)))"

text \<open>The fields of a job that the two loops leave alone.\<close>

definition same_job :: "replication_job \<Rightarrow> replication_job \<Rightarrow> bool" where
  "same_job j j' \<longleftrightarrow>
     job_id j' = job_id j \<and> sourceRegion j' = sourceRegion j
     \<and> targetRegions j' = targetRegions j \<and> paths j' = paths j \<and> status j' = status j
     \<and> startedAt j' = startedAt j \<and> completedAt j' = completedAt j"

subsection \<open>Concrete inputs\<close>

definition probed_origin :: origin where
  "probed_origin = \<lparr>origin_id = ''o1'', url = ''https://o1.example'', weight = 1,
     healthy = True, lastCheck = 0, latencyMs = 20, consecutiveFailures = 0\<rparr>"

definition failing_origin :: origin where
  "failing_origin = \<lparr>origin_id = ''o2'', url = ''https://o2.example'', weight = 1,
     healthy = True, lastCheck = 0, latencyMs = 20, consecutiveFailures = 2\<rparr>"




text \<open>A sweep in which the first origin answers 200 after 10 ms and the second 500 after 30 ms.\<close>

definition swept_directory :: directory where
  "swept_directory =
     addRegion \<lparr>region_id = ''eu-west'', region_name = ''EU West'', region_code = ''eu-west-1'',
                 origins = [probed_origin, failing_origin], priority = 1,
                 countries = [''GB''], fallback = None\<rparr> []"

definition sweep_example :: sweep_env where
  "sweep_example =
     \<lparr>probe_of = (\<lambda>i j. if j = 0 then Response True 10 else Response False 30),
      checked_at = (\<lambda>i j. 1000),
      summary_at = (\<lambda>i. 2000)\<rparr>"





text \<open>A clock that advances by one millisecond at every reading.\<close>

definition tick :: "nat \<Rightarrow> int" where
  "tick k = 1000 + int k"

definition stored_object :: r2_object where
  "stored_object = \<lparr>content = ''body'', httpMetadata = Some ''text/css'', customMetadata = None\<rparr>"

text \<open>Two paths, two targets, and a store that refuses one of the four writes.\<close>

definition two_by_two :: replicator where
  "two_by_two =
     \<lparr>kv = (\<lambda>k. None),
      bucket = \<lparr>objects = [''us-east/a.css'' \<mapsto> stored_object, ''us-east/b.js'' \<mapsto> stored_object],
                put_error = [''ap-southeast/b.js'' \<mapsto> ''quota exceeded'']\<rparr>,
      jobs = []\<rparr>"




definition two_by_two_run :: "replication_job \<times> replicator \<times> replication_job" where
  "two_by_two_run =
     startReplication tick ''job-1'' 900 two_by_two ''us-east''
       [''eu-west'', ''ap-southeast''] [''a.css'', ''b.js'']"



section \<open>Properties\<close>

subsection \<open>Cache keys\<close>

text \<open>
  C8. \<open>getCacheKey\<close> is a function of its two arguments (equal inputs give equal
  keys), and for a fixed path two distinct region ids give two distinct keys.
\<close>

theorem getCacheKey_deterministic_and_region_injective:
  "(path = path' \<and> regionA = regionB' \<longrightarrow> getCacheKey path regionA = getCacheKey path' regionB')
   \<and> (regionA \<noteq> regionB \<longrightarrow> getCacheKey path regionA \<noteq> getCacheKey path regionB)"
  by (simp add: getCacheKey_def)

theorem getCacheKey_witness:
  "''us-east'' \<noteq> ''eu-west''
   \<and> getCacheKey ''/a.css'' ''us-east'' \<noteq> getCacheKey ''/a.css'' ''eu-west''
   \<and> getCacheKey ''/a.css'' ''us-east'' = ''cache:us-east:/a.css''"
  using getCacheKey_deterministic_and_region_injective
          [of "''/a.css''" "''/a.css''" "''us-east''" "''us-east''" "''eu-west''"]
  by (simp add: getCacheKey_def)

subsection \<open>Health monitor\<close>

lemma record_probe_response_debounced:
  "healthy (record_probe (Response ok latency) now og)
     = (consecutiveFailures (record_probe (Response ok latency) now og) < 3)"
  by (simp add: Let_def)

lemma record_probe_rejected:
  "healthy (record_probe Rejected now og) = False
   \<and> consecutiveFailures (record_probe Rejected now og) = consecutiveFailures og + 1"
  by simp

text \<open>
  C1. After a probe is recorded the origin should satisfy
  \<open>healthy = (consecutiveFailures < 3)\<close>, so that it stays healthy through its first
  two consecutive failures. The \<open>catch\<close> branch does not: a first timeout leaves the
  counter at 1 and the origin unhealthy, where a first non-success response leaves the
  counter at 1 and the origin healthy.
\<close>

theorem record_probe_rejected_first_failure:
  "consecutiveFailures (record_probe Rejected 1000 probed_origin) = 1
   \<and> healthy (record_probe Rejected 1000 probed_origin) = False
   \<and> consecutiveFailures (record_probe (Response False 35) 1000 probed_origin) = 1
   \<and> healthy (record_probe (Response False 35) 1000 probed_origin) = True"
  by (simp add: probed_origin_def Let_def)

lemma check_region_no_healthy_average:
  "availableOrigins (snd (check_region env i rid r)) = 0
     \<Longrightarrow> avgLatencyMs (snd (check_region env i rid r)) = 0"
  by (simp add: check_region_def Let_def split: prod.splits)

text \<open>
  C7. The summary of a region should report the average latency of its healthy origins
  only. In the sweep below the first origin answers 200 after 10 ms and the second
  answers 500 after 30 ms, which is its third failure in a row: one origin is healthy
  afterwards, with latency 10, and the summary reports an average of 40.
\<close>

theorem performHealthChecks_average_counts_failed_responses:
  "snd (snd (performHealthChecks sweep_example swept_directory)) =
     [(''eu-west'', \<lparr>regionId = ''eu-west'', s_healthy = True, availableOrigins = 1,
                      totalOrigins = 2, avgLatencyMs = 40, s_lastCheck = 2000\<rparr>)]
   \<and> map (\<lambda>r. map healthy (origins r))
          (regions_values (fst (performHealthChecks sweep_example swept_directory)))
        = [[True, False]]
   \<and> map getAverageLatency
          (regions_values (fst (performHealthChecks sweep_example swept_directory)))
        = [Finite 10]"
  by (simp add: performHealthChecks_def swept_directory_def sweep_example_def addRegion_def
        check_region_def probed_origin_def failing_origin_def regions_values_def
        saveRegions_def getAverageLatency_def Let_def)

subsection \<open>Routing\<close>

lemma default_router_regions:
  "createDefaultRouter = map (\<lambda>r. (region_id r, r)) REGION_PRESETS"
  by (simp add: createDefaultRouter_def REGION_PRESETS_def addRegion_def)



lemmas preset_simps =
  default_router_regions REGION_PRESETS_def findRegionByCountry_def regions_values_def
  regions_get_def isRegionHealthy_def request_country_def


lemma find_None_countries:
  "(\<forall>r\<in>set (regions_values rs). country \<notin> set (countries r))
     \<Longrightarrow> findRegionByCountry rs country = None"
  by (simp add: findRegionByCountry_def find_None_iff)

lemma no_healthy_lowest:
  "(\<forall>r\<in>set (regions_values rs). \<not> isRegionHealthy r) \<Longrightarrow> findLowestLatencyRegion rs = None"
  by (simp add: findLowestLatencyRegion_def)

text \<open>
  C4. When no region lists the request country and no origin of any region is healthy,
  \<open>route\<close> fails with \<open>NoHealthyRegion\<close> instead of returning a decision.
\<close>

theorem route_no_healthy_region:
  assumes "\<forall>r\<in>set (regions_values rs). request_country cf \<notin> set (countries r)"
    and "\<forall>r\<in>set (regions_values rs). \<forall>og\<in>set (origins r). \<not> healthy og"
  shows "route rs u cf = Inl NoHealthyRegion"
proof -
  have "\<forall>r\<in>set (regions_values rs). \<not> isRegionHealthy r"
    using assms(2) by (simp add: isRegionHealthy_def list_ex_iff)
  then show ?thesis
    using assms(1) by (simp add: route_def route_target_def find_None_countries no_healthy_lowest)
qed

theorem route_no_healthy_region_witness:
  "list_all (\<lambda>r. request_country (Some ''ZA'') \<notin> set (countries r))
      (regions_values createDefaultRouter)
   \<and> list_all (\<lambda>r. list_all (\<lambda>og. \<not> healthy og) (origins r))
         (regions_values createDefaultRouter)
   \<and> route createDefaultRouter (1 / 2) (Some ''ZA'') = Inl NoHealthyRegion"
proof -
  have h1: "\<forall>r\<in>set (regions_values createDefaultRouter).
              request_country (Some ''ZA'') \<notin> set (countries r)"
    by (simp add: preset_simps)
  have h2: "\<forall>r\<in>set (regions_values createDefaultRouter). \<forall>og\<in>set (origins r). \<not> healthy og"
    by (simp add: preset_simps)
  from route_no_healthy_region [OF h1 h2, of "1 / 2"] h1 h2 show ?thesis
    by (simp add: list_all_iff)
qed

lemma selectOrigin_no_origins: "origins r = [] \<Longrightarrow> selectOrigin r u = None"
  by (simp add: selectOrigin_def)

text \<open>
  C9. A decision whose region has no origins carries the undefined origin, and
  \<open>route\<close> does return such a decision, without failing, whenever the region it
  settles on by country or by fallback has an empty origin list.
\<close>

theorem route_empty_origins_undefined:
  "(route rs u cf = Inr d \<and> origins (d_region d) = [] \<longrightarrow> d_origin d = None)
   \<and> (route_target rs (request_country cf) = (Some r, fb) \<and> origins r = [] \<longrightarrow>
        route rs u cf =
          Inr \<lparr>d_region = r, d_origin = None,
               d_reason = (if fb then Failover else Geo), d_fallback = fb\<rparr>)"
proof (intro conjI impI)
  assume a: "route rs u cf = Inr d \<and> origins (d_region d) = []"
  then have "d_origin d = selectOrigin (d_region d) u"
    by (auto simp: route_def Let_def split: prod.splits option.splits)
  with a show "d_origin d = None" by (simp add: selectOrigin_no_origins)
next
  assume "route_target rs (request_country cf) = (Some r, fb) \<and> origins r = []"
  then show "route rs u cf =
          Inr \<lparr>d_region = r, d_origin = None,
               d_reason = (if fb then Failover else Geo), d_fallback = fb\<rparr>"
    by (simp add: route_def selectOrigin_no_origins)
qed

theorem route_empty_origins_undefined_witness:
  "route_target createDefaultRouter (request_country None) = (Some (REGION_PRESETS ! 2), True)
   \<and> origins (REGION_PRESETS ! 2) = []
   \<and> route createDefaultRouter 0 None =
       Inr \<lparr>d_region = REGION_PRESETS ! 2, d_origin = None,
            d_reason = Failover, d_fallback = True\<rparr>
   \<and> d_origin \<lparr>d_region = REGION_PRESETS ! 2, d_origin = None,
            d_reason = Failover, d_fallback = True\<rparr> = None"
proof -
  have h1: "route_target createDefaultRouter (request_country None)
              = (Some (REGION_PRESETS ! 2), True)"
    by (simp add: route_target_def preset_simps)
  have h2: "origins (REGION_PRESETS ! 2) = []" by (simp add: REGION_PRESETS_def)
  from route_empty_origins_undefined
         [of createDefaultRouter 0 None
            "\<lparr>d_region = REGION_PRESETS ! 2, d_origin = None,
              d_reason = Failover, d_fallback = True\<rparr>"
            "REGION_PRESETS ! 2" True] h1 h2
  show ?thesis by simp
qed























subsection \<open>Replication\<close>

lemma write_errors_Cons:
  "write_errors pe path (t # ts) =
     (case pe (target_key t path) of None \<Rightarrow> []
      | Some message \<Rightarrow> [''Failed to replicate '' @ path @ '' to '' @ t @ '': '' @ message])
     @ write_errors pe path ts"
  by (simp add: write_errors_def)

lemma write_errors_Nil: "write_errors pe path [] = []"
  by (simp add: write_errors_def)

lemma replicate_targets_result:
  "replicate_targets clock tot path src ts (b, job, c) = (b', job', c') \<Longrightarrow>
     c' = c + length ts
     \<and> errors job' = errors job @ write_errors (put_error b) path ts
     \<and> put_error b' = put_error b
     \<and> (\<forall>k. k \<notin> (\<lambda>t. target_key t path) ` set ts \<longrightarrow> objects b' k = objects b k)
     \<and> (\<forall>k. objects b k \<noteq> None \<longrightarrow> objects b' k \<noteq> None)
     \<and> progress job' = (if ts = [] then progress job
                         else js_round ((of_nat c' / of_nat tot) * 100))
     \<and> same_job job job'"
proof (induction ts arbitrary: b job c)
  case Nil
  then show ?case by (simp add: write_errors_Nil same_job_def)
next
  case (Cons t ts)
  show ?case
  proof (cases "put_error b (target_key t path)")
    case None
    let ?obj = "\<lparr>content = content src, httpMetadata = httpMetadata src,
                 customMetadata = Some \<lparr>replicatedFrom = sourceRegion job,
                                         replicatedAt = clock c,
                                         replicationJobId = job_id job\<rparr>\<rparr>"
    let ?b1 = "b\<lparr>objects := (objects b)(target_key t path \<mapsto> ?obj)\<rparr>"
    let ?j1 = "job\<lparr>progress := js_round ((of_nat (c + 1) / of_nat tot) * 100)\<rparr>"
    from Cons.prems None
    have "replicate_targets clock tot path src ts (?b1, ?j1, c + 1) = (b', job', c')"
      by (simp add: bucket_put_def Let_def)
    from Cons.IH [OF this] None show ?thesis
      by (auto simp: write_errors_Cons same_job_def)
  next
    case (Some message)
    let ?j1 = "job\<lparr>errors := errors job @
                      [''Failed to replicate '' @ path @ '' to '' @ t @ '': '' @ message],
                   progress := js_round ((of_nat (c + 1) / of_nat tot) * 100)\<rparr>"
    from Cons.prems Some
    have "replicate_targets clock tot path src ts (b, ?j1, c + 1) = (b', job', c')"
      by (simp add: bucket_put_def Let_def)
    from Cons.IH [OF this] Some show ?thesis
      by (auto simp: write_errors_Cons same_job_def)
  qed
qed


lemma same_job_refl: "same_job j j"
  by (simp add: same_job_def)

lemma same_job_trans: "same_job a b \<Longrightarrow> same_job b c \<Longrightarrow> same_job a c"
  by (simp add: same_job_def)

lemma same_job_errors: "same_job j (j\<lparr>errors := e\<rparr>)"
  by (simp add: same_job_def)

lemma same_job_source_key: "same_job j j' \<Longrightarrow> source_key j' p = source_key j p"
  by (simp add: same_job_def source_key_def)

lemma replicate_paths_result:
  "no_alias b job ps \<Longrightarrow>
   replicate_paths clock tot ps (b, job, c) = (b', job', c') \<Longrightarrow>
     c' = c + length (found_paths b job ps) * length (targetRegions job)
     \<and> errors job' = errors job @ concat (map (path_errors b job) ps)
     \<and> progress job' = (if c' = c then progress job
                         else js_round ((of_nat c' / of_nat tot) * 100))
     \<and> same_job job job'"
proof (induction ps arbitrary: b job c)
  case Nil
  then show ?case by (simp add: found_paths_def same_job_refl)
next
  case (Cons p ps)
  show ?case
  proof (cases "objects b (source_key job p)")
    case None
    define j1 where "j1 = job\<lparr>errors := errors job @ [''Source not found: '' @ p]\<rparr>"
    have sj: "same_job job j1" unfolding j1_def by (rule same_job_errors)
    have keys: "source_key j1 = source_key job"
      by (rule ext) (rule same_job_source_key [OF sj])
    have tr: "targetRegions j1 = targetRegions job"
      using sj by (simp add: same_job_def)
    have e1: "errors j1 = errors job @ [''Source not found: '' @ p]"
      and pr1: "progress j1 = progress job"
      by (simp_all add: j1_def)
    from Cons.prems(1) have na: "no_alias b j1 ps"
      by (simp add: no_alias_def keys tr)
    from Cons.prems(2) None
    have run: "replicate_paths clock tot ps (b, j1, c) = (b', job', c')"
      by (simp add: bucket_get_def j1_def)
    have fp: "found_paths b j1 ps = found_paths b job (p # ps)"
      using None by (simp add: found_paths_def keys)
    have pe: "path_errors b j1 = path_errors b job"
      by (rule ext) (simp add: path_errors_def keys tr split: option.split)
    have pe0: "path_errors b job p = [''Source not found: '' @ p]"
      using None by (simp add: path_errors_def)
    from Cons.IH [OF na run] have
      c': "c' = c + length (found_paths b j1 ps) * length (targetRegions j1)"
      and e': "errors job' = errors j1 @ concat (map (path_errors b j1) ps)"
      and pr': "progress job' = (if c' = c then progress j1
                                 else js_round ((of_nat c' / of_nat tot) * 100))"
      and sj': "same_job j1 job'"
      by blast+
    have count: "c' = c + length (found_paths b job (p # ps)) * length (targetRegions job)"
      using c' fp tr by simp
    have errs: "errors job' = errors job @ concat (map (path_errors b job) (p # ps))"
      unfolding e' e1 pe list.map concat.simps pe0 by simp
    have prog: "progress job' = (if c' = c then progress job
                                 else js_round ((of_nat c' / of_nat tot) * 100))"
      using pr' pr1 by simp
    from count errs prog same_job_trans [OF sj sj'] show ?thesis by blast
  next
    case (Some so)
    obtain b1 j1 c1 where rt:
      "replicate_targets clock tot p so (targetRegions job) (b, job, c) = (b1, j1, c1)"
      by (cases "replicate_targets clock tot p so (targetRegions job) (b, job, c)") auto
    from replicate_targets_result [OF rt] have
      c1: "c1 = c + length (targetRegions job)"
      and e1: "errors j1 = errors job @ write_errors (put_error b) p (targetRegions job)"
      and pe1: "put_error b1 = put_error b"
      and frame: "\<forall>k. k \<notin> (\<lambda>t. target_key t p) ` set (targetRegions job)
                    \<longrightarrow> objects b1 k = objects b k"
      and mono: "\<forall>k. objects b k \<noteq> None \<longrightarrow> objects b1 k \<noteq> None"
      and pr1: "progress j1 = (if targetRegions job = [] then progress job
                               else js_round ((of_nat c1 / of_nat tot) * 100))"
      and sj: "same_job job j1"
      by blast+
    have keys: "source_key j1 = source_key job"
      by (rule ext) (rule same_job_source_key [OF sj])
    have tr: "targetRegions j1 = targetRegions job"
      using sj by (simp add: same_job_def)
    have same_presence:
      "objects b1 (source_key job q) = None \<longleftrightarrow> objects b (source_key job q) = None"
      if "q \<in> set ps" for q
    proof
      assume "objects b1 (source_key job q) = None"
      with mono show "objects b (source_key job q) = None" by blast
    next
      assume gone: "objects b (source_key job q) = None"
      with Cons.prems(1) that Some
      have "\<forall>t\<in>set (targetRegions job). target_key t p \<noteq> source_key job q"
        by (simp add: no_alias_def)
      then have "source_key job q \<notin> (\<lambda>t. target_key t p) ` set (targetRegions job)"
        by auto
      with frame gone show "objects b1 (source_key job q) = None" by simp
    qed
    have na: "no_alias b1 j1 ps"
      using Cons.prems(1) same_presence by (simp add: no_alias_def keys tr)
    from Cons.prems(2) Some rt
    have run: "replicate_paths clock tot ps (b1, j1, c1) = (b', job', c')"
      by (simp add: bucket_get_def)
    have fp: "found_paths b1 j1 ps = found_paths b job ps"
      unfolding found_paths_def keys
      by (rule filter_cong) (simp_all add: same_presence)
    have fp0: "found_paths b job (p # ps) = p # found_paths b job ps"
      using Some by (simp add: found_paths_def)
    have pe: "map (path_errors b1 j1) ps = map (path_errors b job) ps"
    proof (rule map_cong)
      fix q assume "q \<in> set ps"
      from same_presence [OF this]
      show "path_errors b1 j1 q = path_errors b job q"
        by (cases "objects b (source_key job q)"; cases "objects b1 (source_key job q)")
           (simp_all add: path_errors_def keys tr pe1)
    qed simp
    have pe0: "path_errors b job p = write_errors (put_error b) p (targetRegions job)"
      using Some by (simp add: path_errors_def)
    from Cons.IH [OF na run] have
      c': "c' = c1 + length (found_paths b1 j1 ps) * length (targetRegions j1)"
      and e': "errors job' = errors j1 @ concat (map (path_errors b1 j1) ps)"
      and pr': "progress job' = (if c' = c1 then progress j1
                                 else js_round ((of_nat c' / of_nat tot) * 100))"
      and sj': "same_job j1 job'"
      by blast+
    have count: "c' = c + length (found_paths b job (p # ps)) * length (targetRegions job)"
      using c' c1 fp fp0 tr by simp
    have errs: "errors job' = errors job @ concat (map (path_errors b job) (p # ps))"
      using e' e1 pe pe0 by simp
    have prog: "progress job' = (if c' = c then progress job
                                 else js_round ((of_nat c' / of_nat tot) * 100))"
    proof (cases "targetRegions job = []")
      case True
      with c1 c' tr pr1 pr' show ?thesis by simp
    next
      case False
      then have "c1 \<noteq> c" using c1 by simp
      moreover have "c' \<noteq> c" using c' c1 False by simp
      ultimately show ?thesis using pr1 pr' False by simp
    qed
    from count errs prog same_job_trans [OF sj sj'] show ?thesis by blast
  qed
qed



lemma replicate_paths_same_job:
  "replicate_paths clock tot ps (b, job, c) = (b', job', c') \<Longrightarrow> same_job job job'"
proof (induction ps arbitrary: b job c)
  case Nil
  then show ?case by (simp add: same_job_refl)
next
  case (Cons p ps)
  show ?case
  proof (cases "objects b (source_key job p)")
    case None
    define j1 where "j1 = job\<lparr>errors := errors job @ [''Source not found: '' @ p]\<rparr>"
    have sj: "same_job job j1" unfolding j1_def by (rule same_job_errors)
    from Cons.prems None
    have "replicate_paths clock tot ps (b, j1, c) = (b', job', c')"
      by (simp add: bucket_get_def j1_def)
    from same_job_trans [OF sj Cons.IH [OF this]] show ?thesis .
  next
    case (Some so)
    obtain b1 j1 c1 where rt:
      "replicate_targets clock tot p so (targetRegions job) (b, job, c) = (b1, j1, c1)"
      by (cases "replicate_targets clock tot p so (targetRegions job) (b, job, c)") auto
    from replicate_targets_result [OF rt] have sj: "same_job job j1" by blast
    from Cons.prems Some rt
    have "replicate_paths clock tot ps (b1, j1, c1) = (b', job', c')"
      by (simp add: bucket_get_def)
    from same_job_trans [OF sj Cons.IH [OF this]] show ?thesis .
  qed
qed

lemma runReplication_unfold:
  assumes "runReplication clock st job0 = (st', final)"
  obtains b j1 c where
    "replicate_paths clock (length (paths job0) * length (targetRegions job0)) (paths job0)
       (bucket st, job0\<lparr>status := Running\<rparr>, 0) = (b, j1, c)"
    "final = j1\<lparr>status := (if errors j1 = [] then Completed else Failed),
                  completedAt := Some (clock c)\<rparr>"
    "kv st' (''replication:'' @ job_id j1) = Some (final, 604800)"
proof -
  obtain b j1 c where rp:
    "replicate_paths clock (length (paths job0) * length (targetRegions job0)) (paths job0)
       (bucket st, job0\<lparr>status := Running\<rparr>, 0) = (b, j1, c)"
    by (cases "replicate_paths clock (length (paths job0) * length (targetRegions job0))
                 (paths job0) (bucket st, job0\<lparr>status := Running\<rparr>, 0)") auto
  from assms rp have
    "final = j1\<lparr>status := (if errors j1 = [] then Completed else Failed),
                  completedAt := Some (clock c)\<rparr>"
    "kv st' (''replication:'' @ job_id j1) = Some (final, 604800)"
    by (auto simp: runReplication_def Let_def)
  with rp that show thesis by blast
qed

lemma runReplication_terminal:
  assumes "runReplication clock st job0 = (st', final)"
  shows "status final = (if errors final = [] then Completed else Failed)
         \<and> completedAt final \<noteq> None
         \<and> job_id final = job_id job0
         \<and> kv st' (''replication:'' @ job_id job0) = Some (final, 604800)"
proof -
  from assms obtain b j1 c where
    rp: "replicate_paths clock (length (paths job0) * length (targetRegions job0)) (paths job0)
           (bucket st, job0\<lparr>status := Running\<rparr>, 0) = (b, j1, c)"
    and fin: "final = j1\<lparr>status := (if errors j1 = [] then Completed else Failed),
                          completedAt := Some (clock c)\<rparr>"
    and stored: "kv st' (''replication:'' @ job_id j1) = Some (final, 604800)"
    by (rule runReplication_unfold)
  from replicate_paths_same_job [OF rp] have "job_id j1 = job_id job0"
    by (simp add: same_job_def)
  with fin stored show ?thesis by simp
qed

lemma runReplication_result:
  assumes sep: "no_alias (bucket st) job0 (paths job0)"
    and run: "runReplication clock st job0 = (st', final)"
  shows "errors final = errors job0 @ concat (map (path_errors (bucket st) job0) (paths job0))
         \<and> progress final =
             (if found_paths (bucket st) job0 (paths job0) = [] \<or> targetRegions job0 = []
              then progress job0
              else js_round
                     ((of_nat (length (found_paths (bucket st) job0 (paths job0))
                                 * length (targetRegions job0))
                        / of_nat (length (paths job0) * length (targetRegions job0))) * 100))"
proof -
  let ?j = "job0\<lparr>status := Running\<rparr>"
  from run obtain b j1 c where
    rp: "replicate_paths clock (length (paths job0) * length (targetRegions job0)) (paths job0)
           (bucket st, ?j, 0) = (b, j1, c)"
    and fin: "final = j1\<lparr>status := (if errors j1 = [] then Completed else Failed),
                          completedAt := Some (clock c)\<rparr>"
    by (rule runReplication_unfold)
  have keys: "source_key ?j = source_key job0"
    by (rule ext) (simp add: source_key_def)
  have na: "no_alias (bucket st) ?j (paths job0)"
    using sep by (simp add: no_alias_def keys)
  have fp: "found_paths (bucket st) ?j = found_paths (bucket st) job0"
    by (rule ext) (simp add: found_paths_def keys)
  have pe: "path_errors (bucket st) ?j = path_errors (bucket st) job0"
    by (rule ext) (simp add: path_errors_def keys split: option.split)
  from replicate_paths_result [OF na rp] have
    c: "c = length (found_paths (bucket st) ?j (paths job0)) * length (targetRegions ?j)"
    and e: "errors j1 = errors ?j @ concat (map (path_errors (bucket st) ?j) (paths job0))"
    and p: "progress j1 = (if c = 0 then progress ?j
              else js_round ((of_nat c
                     / of_nat (length (paths job0) * length (targetRegions job0))) * 100))"
    by simp_all
  have "errors final = errors job0 @ concat (map (path_errors (bucket st) job0) (paths job0))"
    using e fin by (simp add: pe)
  moreover have "progress final =
             (if found_paths (bucket st) job0 (paths job0) = [] \<or> targetRegions job0 = []
              then progress job0
              else js_round
                     ((of_nat (length (found_paths (bucket st) job0 (paths job0))
                                 * length (targetRegions job0))
                        / of_nat (length (paths job0) * length (targetRegions job0))) * 100))"
    using p c fin by (simp add: fp)
  ultimately show ?thesis by blast
qed

lemma startReplication_unfold:
  assumes "startReplication clock uuid now st src targets ps = (pending, st', final)"
  shows "pending = new_job uuid src targets ps now
         \<and> runReplication clock (st\<lparr>jobs := map_set uuid pending (jobs st)\<rparr>) pending
             = (st', final)"
  using assms by (auto simp: startReplication_def Let_def new_job_def split: prod.splits)

lemma no_alias_all_found:
  "\<forall>p\<in>set ps. objects b (source_key job p) \<noteq> None \<Longrightarrow> no_alias b job ps"
  by (auto simp: no_alias_def)

lemma one_failing_write:
  assumes "length (filter (\<lambda>k. pe k \<noteq> None)
             [target_key t1 p1, target_key t2 p1, target_key t1 p2, target_key t2 p2]) = 1"
  shows "\<exists>p\<in>{p1, p2}. \<exists>t\<in>{t1, t2}. \<exists>message.
           pe (target_key t p) = Some message
           \<and> write_errors pe p1 [t1, t2] @ write_errors pe p2 [t1, t2]
               = [''Failed to replicate '' @ p @ '' to '' @ t @ '': '' @ message]"
proof -
  consider (a) "pe (target_key t1 p1) \<noteq> None" "pe (target_key t2 p1) = None"
               "pe (target_key t1 p2) = None" "pe (target_key t2 p2) = None"
    | (b) "pe (target_key t1 p1) = None" "pe (target_key t2 p1) \<noteq> None"
          "pe (target_key t1 p2) = None" "pe (target_key t2 p2) = None"
    | (c) "pe (target_key t1 p1) = None" "pe (target_key t2 p1) = None"
          "pe (target_key t1 p2) \<noteq> None" "pe (target_key t2 p2) = None"
    | (d) "pe (target_key t1 p1) = None" "pe (target_key t2 p1) = None"
          "pe (target_key t1 p2) = None" "pe (target_key t2 p2) \<noteq> None"
    using assms by (auto split: if_splits)
  then show ?thesis
  proof cases
    case a
    then obtain m where "pe (target_key t1 p1) = Some m" by auto
    with a show ?thesis by (auto simp: write_errors_def)
  next
    case b
    then obtain m where "pe (target_key t2 p1) = Some m" by auto
    with b show ?thesis by (auto simp: write_errors_def)
  next
    case c
    then obtain m where "pe (target_key t1 p2) = Some m" by auto
    with c show ?thesis by (auto simp: write_errors_def)
  next
    case d
    then obtain m where "pe (target_key t2 p2) = Some m" by auto
    with d show ?thesis by (auto simp: write_errors_def)
  qed
qed

text \<open>
  C6. Whatever the job, the run ends with status \<open>failed\<close> exactly when the error
  list is not empty (and \<open>completed\<close> otherwise), the completion time is stamped, and
  the final record is stored under \<open>replication:<id>\<close> with a time to live of
  \<open>86400 * 7\<close> seconds. For a job with two paths and two target regions whose source
  objects both exist and for which exactly one of the four writes fails, the status is
  \<open>failed\<close>, the progress is 100, and the error list is the one message naming the
  path and the target of the failed write.
\<close>

theorem startReplication_terminal_state:
  assumes "startReplication clock uuid now st src targets ps = (pending, st', final)"
  shows "(status final = Failed \<longleftrightarrow> errors final \<noteq> [])
         \<and> (status final = Completed \<longleftrightarrow> errors final = [])
         \<and> completedAt final \<noteq> None
         \<and> kv st' (''replication:'' @ uuid) = Some (final, 86400 * 7)
         \<and> (\<forall>p1 p2 t1 t2.
               ps = [p1, p2] \<and> targets = [t1, t2]
               \<and> objects (bucket st) (source_key pending p1) \<noteq> None
               \<and> objects (bucket st) (source_key pending p2) \<noteq> None
               \<and> length (filter (\<lambda>k. put_error (bucket st) k \<noteq> None)
                    [target_key t1 p1, target_key t2 p1, target_key t1 p2, target_key t2 p2]) = 1
               \<longrightarrow> status final = Failed \<and> progress final = 100
                   \<and> (\<exists>p\<in>{p1, p2}. \<exists>t\<in>{t1, t2}. \<exists>message.
                         put_error (bucket st) (target_key t p) = Some message
                         \<and> errors final =
                             [''Failed to replicate '' @ p @ '' to '' @ t @ '': '' @ message]))"
proof -
  let ?st1 = "st\<lparr>jobs := map_set uuid pending (jobs st)\<rparr>"
  from startReplication_unfold [OF assms] have
    pending: "pending = new_job uuid src targets ps now"
    and run: "runReplication clock ?st1 pending = (st', final)"
    by blast+
  have fields: "job_id pending = uuid" "paths pending = ps" "targetRegions pending = targets"
    "errors pending = []" "progress pending = 0"
    by (simp_all add: pending new_job_def)
  from runReplication_terminal [OF run] fields(1) have
    st: "status final = (if errors final = [] then Completed else Failed)"
    and stamped: "completedAt final \<noteq> None"
    and stored: "kv st' (''replication:'' @ uuid) = Some (final, 604800)"
    by simp_all
  have two: "status final = Failed \<and> progress final = 100
             \<and> (\<exists>p\<in>{p1, p2}. \<exists>t\<in>{t1, t2}. \<exists>message.
                   put_error (bucket st) (target_key t p) = Some message
                   \<and> errors final =
                       [''Failed to replicate '' @ p @ '' to '' @ t @ '': '' @ message])"
    if shape: "ps = [p1, p2]" "targets = [t1, t2]"
      and src1: "objects (bucket st) (source_key pending p1) \<noteq> None"
      and src2: "objects (bucket st) (source_key pending p2) \<noteq> None"
      and one: "length (filter (\<lambda>k. put_error (bucket st) k \<noteq> None)
                  [target_key t1 p1, target_key t2 p1, target_key t1 p2, target_key t2 p2]) = 1"
    for p1 p2 t1 t2
  proof -
    have all: "\<forall>p\<in>set ps. objects (bucket ?st1) (source_key pending p) \<noteq> None"
      using shape src1 src2 by simp
    have na: "no_alias (bucket ?st1) pending (paths pending)"
      using no_alias_all_found [OF all] fields by simp
    have found: "found_paths (bucket ?st1) pending ps = ps"
      using all by (simp add: found_paths_def)
    have pe: "concat (map (path_errors (bucket ?st1) pending) ps)
                = write_errors (put_error (bucket st)) p1 [t1, t2]
                  @ write_errors (put_error (bucket st)) p2 [t1, t2]"
      using shape src1 src2 fields by (auto simp: path_errors_def)
    from runReplication_result [OF na run] fields found pe shape
    have e: "errors final = write_errors (put_error (bucket st)) p1 [t1, t2]
                  @ write_errors (put_error (bucket st)) p2 [t1, t2]"
      and p: "progress final = 100"
      by (simp_all add: js_round_def floor_eq_iff)
    from one_failing_write [OF one] e
    have ex: "\<exists>p\<in>{p1, p2}. \<exists>t\<in>{t1, t2}. \<exists>message.
                   put_error (bucket st) (target_key t p) = Some message
                   \<and> errors final =
                       [''Failed to replicate '' @ p @ '' to '' @ t @ '': '' @ message]"
      by simp
    then have "errors final \<noteq> []" by auto
    with st p ex show ?thesis by simp
  qed
  from st stamped stored two show ?thesis by auto
qed


lemma startReplication_pending:
  "fst (startReplication clock uuid now st src targets ps) = new_job uuid src targets ps now"
  by (simp add: startReplication_def Let_def split: prod.splits)

theorem startReplication_terminal_state_witness:
  "objects (bucket two_by_two) (source_key (fst two_by_two_run) ''a.css'') \<noteq> None
   \<and> objects (bucket two_by_two) (source_key (fst two_by_two_run) ''b.js'') \<noteq> None
   \<and> length (filter (\<lambda>k. put_error (bucket two_by_two) k \<noteq> None)
         [target_key ''eu-west'' ''a.css'', target_key ''ap-southeast'' ''a.css'',
          target_key ''eu-west'' ''b.js'', target_key ''ap-southeast'' ''b.js'']) = 1
   \<and> status (snd (snd two_by_two_run)) = Failed
   \<and> progress (snd (snd two_by_two_run)) = 100
   \<and> errors (snd (snd two_by_two_run))
        = [''Failed to replicate b.js to ap-southeast: quota exceeded'']
   \<and> completedAt (snd (snd two_by_two_run)) \<noteq> None
   \<and> kv (fst (snd two_by_two_run)) ''replication:job-1''
        = Some (snd (snd two_by_two_run), 604800)"
proof -
  have run: "startReplication tick ''job-1'' 900 two_by_two ''us-east''
               [''eu-west'', ''ap-southeast''] [''a.css'', ''b.js'']
             = (fst two_by_two_run, fst (snd two_by_two_run), snd (snd two_by_two_run))"
    by (simp add: two_by_two_run_def)
  have pending: "fst two_by_two_run
                   = new_job ''job-1'' ''us-east'' [''eu-west'', ''ap-southeast'']
                       [''a.css'', ''b.js''] 900"
    by (simp add: two_by_two_run_def startReplication_pending)
  have h1: "objects (bucket two_by_two) (source_key (fst two_by_two_run) ''a.css'') \<noteq> None"
    and h2: "objects (bucket two_by_two) (source_key (fst two_by_two_run) ''b.js'') \<noteq> None"
    by (simp_all add: pending new_job_def source_key_def two_by_two_def)
  have h3: "length (filter (\<lambda>k. put_error (bucket two_by_two) k \<noteq> None)
         [target_key ''eu-west'' ''a.css'', target_key ''ap-southeast'' ''a.css'',
          target_key ''eu-west'' ''b.js'', target_key ''ap-southeast'' ''b.js'']) = 1"
    by (simp add: target_key_def two_by_two_def)
  note t = startReplication_terminal_state [OF run]
  from t h1 h2 h3 have
    "status (snd (snd two_by_two_run)) = Failed \<and> progress (snd (snd two_by_two_run)) = 100
     \<and> (\<exists>p\<in>{''a.css'', ''b.js''}. \<exists>t\<in>{''eu-west'', ''ap-southeast''}. \<exists>message.
           put_error (bucket two_by_two) (target_key t p) = Some message
           \<and> errors (snd (snd two_by_two_run)) =
               [''Failed to replicate '' @ p @ '' to '' @ t @ '': '' @ message])"
    by blast
  then have "status (snd (snd two_by_two_run)) = Failed"
    "progress (snd (snd two_by_two_run)) = 100"
    "errors (snd (snd two_by_two_run))
        = [''Failed to replicate b.js to ap-southeast: quota exceeded'']"
    by (auto simp: target_key_def two_by_two_def split: if_splits)
  with t h1 h2 h3 show ?thesis by simp
qed










end
